theory Spec2Isabelle
  imports Main
begin

section \<open>The logging engine, as far as logger.go relies on it\<close>

text \<open>
  Package \<open>logger\<close> (src/logger.go) is a thin facade over the structured logging engine
  \<open>go.uber.org/zap\<close>. The engine is not part of the package; this section fixes the part of
  its contract that the package's code touches. Go strings are byte sequences: \<open>string\<close>.
\<close>

datatype Level =
  DebugLevel | InfoLevel | WarnLevel | ErrorLevel | DPanicLevel | PanicLevel | FatalLevel

datatype error =
  UnrecognizedLevel string
  | EngineError string
  | OtherError string

datatype panic = NilDereference

text \<open>
  \<open>zapcore.Level.unmarshalText\<close>: the table of level names. The empty text is a name of
  \<open>InfoLevel\<close> (the engine's "make the zero value useful" case).
\<close>

definition unmarshalText :: "string \<Rightarrow> Level option" where
  "unmarshalText text =
     (if text = ''debug'' \<or> text = ''DEBUG'' then Some DebugLevel
      else if text = ''info'' \<or> text = ''INFO'' \<or> text = [] then Some InfoLevel
      else if text = ''warn'' \<or> text = ''WARN'' then Some WarnLevel
      else if text = ''error'' \<or> text = ''ERROR'' then Some ErrorLevel
      else if text = ''dpanic'' \<or> text = ''DPANIC'' then Some DPanicLevel
      else if text = ''panic'' \<or> text = ''PANIC'' then Some PanicLevel
      else if text = ''fatal'' \<or> text = ''FATAL'' then Some FatalLevel
      else None)"

text \<open>
  \<open>(*Level).UnmarshalText\<close>: the text as it is, then the text in lower case
  (\<open>bytes.ToLower\<close>, which follows the Unicode case tables and is passed in as \<open>toLower\<close>).
  The method writes the receiver on success and leaves it on failure; the model takes the
  receiver's value and returns it with the error.
\<close>

definition UnmarshalText :: "(string \<Rightarrow> string) \<Rightarrow> Level \<Rightarrow> string \<Rightarrow> Level \<times> error option" where
  "UnmarshalText toLower l text =
     (case unmarshalText text of
        Some l' \<Rightarrow> (l', None)
      | None \<Rightarrow>
          (case unmarshalText (toLower text) of
             Some l' \<Rightarrow> (l', None)
           | None \<Rightarrow> (l, Some (UnrecognizedLevel text))))"

datatype LevelEncoder =
  LowercaseLevelEncoder | LowercaseColorLevelEncoder | CapitalLevelEncoder | CapitalColorLevelEncoder

datatype TimeEncoder =
  EpochTimeEncoder | EpochMillisTimeEncoder | EpochNanosTimeEncoder
  | ISO8601TimeEncoder | RFC3339TimeEncoder

datatype DurationEncoder =
  SecondsDurationEncoder | NanosDurationEncoder | MillisDurationEncoder | StringDurationEncoder

datatype CallerEncoder = ShortCallerEncoder | FullCallerEncoder

record EncoderConfig =
  MessageKey :: string
  LevelKey :: string
  TimeKey :: string
  NameKey :: string
  CallerKey :: string
  FunctionKey :: string
  StacktraceKey :: string
  LineEnding :: string
  EncodeLevel :: LevelEncoder
  EncodeTime :: TimeEncoder
  EncodeDuration :: DurationEncoder
  EncodeCaller :: CallerEncoder

text \<open>The engine's two presets, \<open>zap.NewProductionEncoderConfig\<close> and
  \<open>zap.NewDevelopmentEncoderConfig\<close>.\<close>

definition NewProductionEncoderConfig :: EncoderConfig where
  "NewProductionEncoderConfig =
     \<lparr>MessageKey = ''msg'', LevelKey = ''level'', TimeKey = ''ts'', NameKey = ''logger'',
      CallerKey = ''caller'', FunctionKey = [], StacktraceKey = ''stacktrace'',
      LineEnding = [CHR 0x0A],
      EncodeLevel = LowercaseLevelEncoder, EncodeTime = EpochTimeEncoder,
      EncodeDuration = SecondsDurationEncoder, EncodeCaller = ShortCallerEncoder\<rparr>"

definition NewDevelopmentEncoderConfig :: EncoderConfig where
  "NewDevelopmentEncoderConfig =
     \<lparr>MessageKey = ''M'', LevelKey = ''L'', TimeKey = ''T'', NameKey = ''N'',
      CallerKey = ''C'', FunctionKey = [], StacktraceKey = ''S'',
      LineEnding = [CHR 0x0A],
      EncodeLevel = CapitalLevelEncoder, EncodeTime = ISO8601TimeEncoder,
      EncodeDuration = StringDurationEncoder, EncodeCaller = ShortCallerEncoder\<rparr>"

text \<open>\<open>zap.Config\<close>, the declarative configuration handed to \<open>Build\<close>. \<open>Sampling\<close> is a
  pointer in Go: \<open>None\<close> is nil.\<close>

record ZapConfig =
  zc_Level :: Level
  zc_Development :: bool
  zc_DisableCaller :: bool
  zc_DisableStacktrace :: bool
  zc_Sampling :: "(nat \<times> nat) option"
  zc_Encoding :: string
  zc_EncoderConfig :: EncoderConfig
  zc_OutputPaths :: "string list"
  zc_ErrorOutputPaths :: "string list"

text \<open>Values that travel as \<open>interface{}\<close>: field values of a record, values stored in a
  \<open>context.Context\<close>. \<open>VOther\<close> stands for any other dynamic type.\<close>

datatype Value =
  VString string
  | VInt int
  | VBool bool
  | VDuration int
  | VError error
  | VOther nat

type_synonym Field = "string \<times> Value"

text \<open>
  A built engine logger: the configuration it was built from, its name and the standing
  fields that \<open>With\<close> has attached so far.
\<close>

record ZapLogger =
  z_Level :: Level
  z_Development :: bool
  z_Sampling :: "(nat \<times> nat) option"
  z_Encoding :: string
  z_EncoderConfig :: EncoderConfig
  z_OutputPaths :: "string list"
  z_ErrorOutputPaths :: "string list"
  z_Name :: string
  z_Fields :: "Field list"

text \<open>
  What the engine does with its surroundings is a parameter: \<open>ToLower\<close> is \<open>bytes.ToLower\<close>;
  \<open>rejects\<close> says for which configurations \<open>zap.Config.Build\<close> returns an error (no encoder
  registered under the encoding's name, a sink that cannot be opened) and which error.
  \<open>Build\<close> asks it only where the surroundings matter: the encoders \<open>json\<close> and \<open>console\<close>
  are registered when the engine is loaded and cannot be replaced, and the sinks \<open>stdout\<close>
  and \<open>stderr\<close> are the process's own streams, which are not opened. A configuration that
  needs nothing else is never rejected.
\<close>

record Engine =
  ToLower :: "string \<Rightarrow> string"
  rejects :: "ZapConfig \<Rightarrow> error option"

definition standardSink :: "string \<Rightarrow> bool" where
  "standardSink path = (path = ''stdout'' \<or> path = ''stderr'')"

definition needsNothing :: "ZapConfig \<Rightarrow> bool" where
  "needsNothing zc =
     ((zc_Encoding zc = ''json'' \<or> zc_Encoding zc = ''console'') \<and>
      list_all standardSink (zc_OutputPaths zc @ zc_ErrorOutputPaths zc))"

text \<open>\<open>zap.Config.Build\<close> returns an error and no logger, or a logger and no error.\<close>

definition Build :: "Engine \<Rightarrow> ZapConfig \<Rightarrow> error + ZapLogger" where
  "Build eng zc =
     (case (if needsNothing zc then None else rejects eng zc) of
        Some e \<Rightarrow> Inl e
      | None \<Rightarrow>
          Inr \<lparr>z_Level = zc_Level zc, z_Development = zc_Development zc,
               z_Sampling = zc_Sampling zc,
               z_Encoding = zc_Encoding zc, z_EncoderConfig = zc_EncoderConfig zc,
               z_OutputPaths = zc_OutputPaths zc, z_ErrorOutputPaths = zc_ErrorOutputPaths zc,
               z_Name = [], z_Fields = []\<rparr>)"

text \<open>\<open>zap.NewProductionConfig\<close> and \<open>zap.NewProduction\<close> (called without options).\<close>

definition NewProductionConfig :: ZapConfig where
  "NewProductionConfig =
     \<lparr>zc_Level = InfoLevel, zc_Development = False, zc_DisableCaller = False,
      zc_DisableStacktrace = False, zc_Sampling = Some (100, 100), zc_Encoding = ''json'',
      zc_EncoderConfig = NewProductionEncoderConfig,
      zc_OutputPaths = [''stderr''], zc_ErrorOutputPaths = [''stderr'']\<rparr>"

definition NewProduction :: "Engine \<Rightarrow> error + ZapLogger" where
  "NewProduction eng = Build eng NewProductionConfig"

section \<open>Package logger: configuration and construction\<close>

text \<open>\<open>type Logger struct { *zap.SugaredLogger }\<close>. The sugared logger has the state of the
  logger it wraps, so \<open>Sugar\<close> on a logger that is not nil keeps the record.\<close>

datatype Logger = Logger (SugaredLogger: ZapLogger)

definition Sugar :: "ZapLogger \<Rightarrow> ZapLogger" where
  "Sugar z = z"

record Config =
  LogLevel :: string
  Development :: bool
  Encoding :: string
  OutputPaths :: "string list"

text \<open>The \<open>zap.Config\<close> literal of \<open>New\<close> (logger.go, lines 41 to 51).\<close>

definition zapConfig :: "Config \<Rightarrow> Level \<Rightarrow> EncoderConfig \<Rightarrow> ZapConfig" where
  "zapConfig cfg logLevel encoderConfig =
     \<lparr>zc_Level = logLevel,
      zc_Development = Development cfg,
      zc_DisableCaller = False,
      zc_DisableStacktrace = False,
      zc_Sampling = None,
      zc_Encoding = Encoding cfg,
      zc_EncoderConfig = encoderConfig,
      zc_OutputPaths = OutputPaths cfg @ [''stderr''],
      zc_ErrorOutputPaths = [''stderr'']\<rparr>"

text \<open>Lines 34 to 39 of \<open>New\<close>: the preset chosen by the flag, then the two encoders that
  are set whatever the flag is.\<close>

definition encoderConfigOf :: "Config \<Rightarrow> EncoderConfig" where
  "encoderConfigOf cfg =
     (let encoderConfig =
            (if Development cfg then NewDevelopmentEncoderConfig else NewProductionEncoderConfig)
      in encoderConfig\<lparr>EncodeTime := ISO8601TimeEncoder, EncodeLevel := CapitalColorLevelEncoder\<rparr>)"

text \<open>Lines 25 to 27 of \<open>New\<close>: the encoding defaults to JSON.\<close>

definition defaultEncoding :: "Config \<Rightarrow> Config" where
  "defaultEncoding cfg = (if Encoding cfg = [] then cfg\<lparr>Encoding := ''json''\<rparr> else cfg)"

text \<open>\<open>New\<close> returns Go's pair \<open>(*Logger, error)\<close>: \<open>None\<close> is nil.\<close>

definition New :: "Engine \<Rightarrow> Config \<Rightarrow> Logger option \<times> error option" where
  "New eng cfg0 =
     (let cfg = defaultEncoding cfg0;
          (logLevel, err) = UnmarshalText (ToLower eng) InfoLevel (LogLevel cfg)
      in case err of
           Some e \<Rightarrow> (None, Some e)
         | None \<Rightarrow>
             (case Build eng (zapConfig cfg logLevel (encoderConfigOf cfg)) of
                Inl e \<Rightarrow> (None, Some e)
              | Inr zapLogger \<Rightarrow> (Some (Logger (Sugar zapLogger)), None)))"

text \<open>
  \<open>NewDefault\<close> drops the error of \<open>zap.NewProduction\<close> and calls \<open>Sugar\<close> on the logger it
  got. Were there an error, that logger would be nil and \<open>Sugar\<close>, which reads through its
  receiver, would panic: the branch is written out.
\<close>

definition NewDefault :: "Engine \<Rightarrow> panic + Logger" where
  "NewDefault eng =
     (let zapLogger = (case NewProduction eng of Inl _ \<Rightarrow> None | Inr z \<Rightarrow> Some z)
      in case zapLogger of
           None \<Rightarrow> Inl NilDereference
         | Some z \<Rightarrow> Inr (Logger (Sugar z)))"

text \<open>
  An engine to run examples on: lower case on ASCII letters, the two encoders the engine
  registers itself (\<open>json\<close> and \<open>console\<close>), every sink opens.
\<close>

definition asciiLower :: "char \<Rightarrow> char" where
  "asciiLower c =
     (if (65::nat) \<le> of_char c \<and> of_char c \<le> (90::nat) then char_of (of_char c + (32::nat)) else c)"

definition stockEngine :: Engine where
  "stockEngine =
     \<lparr>ToLower = map asciiLower,
      rejects = (\<lambda>zc. if zc_Encoding zc = ''json'' \<or> zc_Encoding zc = ''console'' then None
                      else Some (EngineError ''no encoder registered''))\<rparr>"

section \<open>The facade: records, standing fields, request context\<close>

text \<open>
  The record of a logging call: severity, message, the logger's name, and the logger's
  standing fields followed by the fields of the call. The variadic
  \<open>keysAndValues ...interface{}\<close> of the sugared API is written as the list of its
  key/value pairs; every call in logger.go passes string keys, each with a value.
\<close>

record Entry =
  e_Level :: Level
  e_Message :: string
  e_LoggerName :: string
  e_Fields :: "Field list"

definition recordOf :: "Logger \<Rightarrow> Level \<Rightarrow> string \<Rightarrow> Field list \<Rightarrow> Entry" where
  "recordOf l lvl msg keysAndValues =
     \<lparr>e_Level = lvl, e_Message = msg, e_LoggerName = z_Name (SugaredLogger l),
      e_Fields = z_Fields (SugaredLogger l) @ keysAndValues\<rparr>"







text \<open>\<open>With\<close> and \<open>Named\<close> wrap the engine's methods of the same names, which return a
  child logger: the receiver's state with the fields added, or the name extended. The Go
  methods allocate a new \<open>Logger\<close> around that child and assign to no field of the
  receiver; here a logger is a value and the methods return a new one. Receivers are
  loggers that are not nil.\<close>

definition With :: "Logger \<Rightarrow> Field list \<Rightarrow> Logger" where
  "With l keysAndValues =
     Logger ((SugaredLogger l)\<lparr>z_Fields := z_Fields (SugaredLogger l) @ keysAndValues\<rparr>)"

definition Named :: "Logger \<Rightarrow> string \<Rightarrow> Logger" where
  "Named l name =
     (if name = [] then Logger (SugaredLogger l)
      else if z_Name (SugaredLogger l) = [] then Logger ((SugaredLogger l)\<lparr>z_Name := name\<rparr>)
      else Logger ((SugaredLogger l)\<lparr>z_Name := z_Name (SugaredLogger l) @ ''.'' @ name\<rparr>))"

text \<open>A \<open>context.Context\<close> as \<open>WithContext\<close> sees it: the values stored under string
  keys. A nil context is \<open>None\<close>; \<open>ctx.Value\<close> of a key that is not there is nil, and the
  assertion \<open>.(string)\<close> in its comma-ok form holds for a value of dynamic type string only.\<close>

type_synonym Context = "string \<Rightarrow> Value option"

text \<open>\<open>context.Background()\<close> and \<open>context.WithValue\<close>, for a string key.\<close>

definition Background :: Context where
  "Background = Map.empty"

definition WithValue :: "Context \<Rightarrow> string \<Rightarrow> Value \<Rightarrow> Context" where
  "WithValue parent key val = parent(key \<mapsto> val)"

definition WithContext :: "Logger \<Rightarrow> Context option \<Rightarrow> Logger" where
  "WithContext l ctx =
     (case ctx of
        None \<Rightarrow> l
      | Some c \<Rightarrow>
          (case c ''request_id'' of
             Some (VString reqID) \<Rightarrow> With l [(''request_id'', VString reqID)]
           | _ \<Rightarrow> l))"

text \<open>
  \<open>With\<close> as the call through pointers that it is in Go. A \<open>*Logger\<close> is an address in the
  heap of allocated loggers; an address that holds no logger is nil or dangling, and a
  method that reads through it panics. \<open>&Logger{...}\<close> allocates: the new logger gets an
  address that was not in use, and no other cell is written.
\<close>

type_synonym ref = nat

type_synonym Heap = "Logger list"

definition deref :: "Heap \<Rightarrow> ref \<Rightarrow> Logger option" where
  "deref h p = (if p < length h then Some (h ! p) else None)"

definition alloc :: "Heap \<Rightarrow> Logger \<Rightarrow> ref \<times> Heap" where
  "alloc h l = (length h, h @ [l])"

definition WithRef :: "Heap \<Rightarrow> ref \<Rightarrow> Field list \<Rightarrow> panic + ref \<times> Heap" where
  "WithRef h p keysAndValues =
     (case deref h p of
        None \<Rightarrow> Inl NilDereference
      | Some l \<Rightarrow> Inr (alloc h (With l keysAndValues)))"

text \<open>The record of a logging call made through a pointer.\<close>

definition recordAt :: "Heap \<Rightarrow> ref \<Rightarrow> Level \<Rightarrow> string \<Rightarrow> Field list \<Rightarrow> panic + Entry" where
  "recordAt h p lvl msg keysAndValues =
     (case deref h p of
        None \<Rightarrow> Inl NilDereference
      | Some l \<Rightarrow> Inr (recordOf l lvl msg keysAndValues))"

section \<open>The HTTP interceptor\<close>







section \<open>The RPC interceptor\<close>



section \<open>Examples to evaluate on\<close>

definition exampleConfig :: Config where
  "exampleConfig = \<lparr>LogLevel = ''debug'', Development = False, Encoding = [], OutputPaths = [''app.log'']\<rparr>"

definition exampleLogger :: Logger where
  "exampleLogger =
     Logger \<lparr>z_Level = InfoLevel, z_Development = False, z_Sampling = None,
             z_Encoding = ''json'', z_EncoderConfig = NewProductionEncoderConfig,
             z_OutputPaths = [''stderr''], z_ErrorOutputPaths = [''stderr''],
             z_Name = [], z_Fields = []\<rparr>"


text \<open>A heap of two loggers: the example logger at address 0 and, at address 1, the logger
  \<open>With("k", "v")\<close> derived from it.\<close>

definition exampleHeap :: Heap where
  "exampleHeap = [exampleLogger, With exampleLogger [(''k'', VString ''v'')]]"







section \<open>Construction: level, presets, sinks\<close>

lemma defaultEncoding_LogLevel: "LogLevel (defaultEncoding cfg) = LogLevel cfg"
  by (simp add: defaultEncoding_def)

lemma OutputPaths_defaultEncoding: "OutputPaths (defaultEncoding cfg) = OutputPaths cfg"
  by (simp add: defaultEncoding_def)

lemma encoderConfigOf_defaultEncoding: "encoderConfigOf (defaultEncoding cfg) = encoderConfigOf cfg"
  by (simp add: encoderConfigOf_def defaultEncoding_def)

lemma UnmarshalText_empty: "UnmarshalText toLower l [] = (InfoLevel, None)"
  by (simp add: UnmarshalText_def unmarshalText_def)

lemma Build_Inr:
  "Build eng zc = Inr z \<Longrightarrow>
     z_Level z = zc_Level zc \<and> z_Sampling z = zc_Sampling zc \<and>
     z_EncoderConfig z = zc_EncoderConfig zc \<and>
     z_OutputPaths z = zc_OutputPaths zc \<and> z_ErrorOutputPaths z = zc_ErrorOutputPaths zc"
  by (auto simp: Build_def split: option.splits if_splits)

text \<open>\<open>New\<close> by its two exits: the level parser's error, then the engine's.\<close>

lemma New_cases:
  "New eng cfg =
     (case UnmarshalText (ToLower eng) InfoLevel (LogLevel cfg) of
        (lv, Some e) \<Rightarrow> (None, Some e)
      | (lv, None) \<Rightarrow>
          (case Build eng (zapConfig (defaultEncoding cfg) lv (encoderConfigOf (defaultEncoding cfg))) of
             Inl e \<Rightarrow> (None, Some e)
           | Inr z \<Rightarrow> (Some (Logger z), None)))"
  by (simp add: New_def Let_def defaultEncoding_LogLevel Sugar_def
      split: prod.splits option.splits sum.splits)

lemma New_SomeD:
  assumes "fst (New eng cfg) = Some l"
  shows "\<exists>lv. UnmarshalText (ToLower eng) InfoLevel (LogLevel cfg) = (lv, None) \<and>
          Build eng (zapConfig (defaultEncoding cfg) lv (encoderConfigOf (defaultEncoding cfg))) =
            Inr (SugaredLogger l)"
  using assms
  by (auto simp: New_cases split: prod.splits option.splits sum.splits)

lemma NewDefault_cases:
  "NewDefault eng =
     (case NewProduction eng of Inl e \<Rightarrow> Inl NilDereference | Inr z \<Rightarrow> Inr (Logger z))"
  by (simp add: NewDefault_def Sugar_def split: sum.splits)

lemma example_built:
  "fst (New stockEngine exampleConfig) = Some (the (fst (New stockEngine exampleConfig)))"
  by code_simp

text \<open>
  C1, as the code has it. A level text is a known severity when \<open>UnmarshalText\<close> returns no
  error. For such a text \<open>New\<close> succeeds, and the logger's level is the parsed one,
  provided the engine accepts the configuration \<open>New\<close> assembled; for a text that is no
  known severity \<open>New\<close> returns the parser's error and a nil logger.
\<close>

theorem New_by_level:
  "(UnmarshalText (ToLower eng) InfoLevel (LogLevel cfg) = (lv, None) \<and>
    rejects eng (zapConfig (defaultEncoding cfg) lv (encoderConfigOf (defaultEncoding cfg))) = None
      \<longrightarrow> (\<exists>l. New eng cfg = (Some l, None) \<and> z_Level (SugaredLogger l) = lv)) \<and>
   (snd (UnmarshalText (ToLower eng) InfoLevel (LogLevel cfg)) = Some e
      \<longrightarrow> New eng cfg = (None, Some e))"
  by (auto simp: New_cases Build_def zapConfig_def split: prod.splits option.splits)

theorem New_by_level_witness:
  "(\<exists>l. New stockEngine exampleConfig = (Some l, None) \<and> z_Level (SugaredLogger l) = DebugLevel) \<and>
   New stockEngine (exampleConfig\<lparr>LogLevel := ''verbose''\<rparr>) =
     (None, Some (UnrecognizedLevel ''verbose''))"
proof -
  have a: "UnmarshalText (ToLower stockEngine) InfoLevel (LogLevel exampleConfig) = (DebugLevel, None)"
    by code_simp
  have b: "rejects stockEngine (zapConfig (defaultEncoding exampleConfig) DebugLevel
             (encoderConfigOf (defaultEncoding exampleConfig))) = None"
    by code_simp
  have c: "snd (UnmarshalText (ToLower stockEngine) InfoLevel
             (LogLevel (exampleConfig\<lparr>LogLevel := ''verbose''\<rparr>))) =
           Some (UnrecognizedLevel ''verbose'')"
    by code_simp
  from a b New_by_level [of stockEngine exampleConfig DebugLevel]
  have "\<exists>l. New stockEngine exampleConfig = (Some l, None) \<and> z_Level (SugaredLogger l) = DebugLevel"
    by blast
  moreover
  from c New_by_level [of stockEngine "exampleConfig\<lparr>LogLevel := ''verbose''\<rparr>" _
      "UnrecognizedLevel ''verbose''"]
  have "New stockEngine (exampleConfig\<lparr>LogLevel := ''verbose''\<rparr>) =
          (None, Some (UnrecognizedLevel ''verbose''))"
    by blast
  ultimately show ?thesis by blast
qed

text \<open>
  C1 as it is written fails: \<open>info\<close> is a known severity, and with an encoding for which
  no encoder is registered \<open>Build\<close> returns an error, which \<open>New\<close> passes on with a nil
  logger.
\<close>

theorem New_known_level_engine_error:
  "UnmarshalText (ToLower stockEngine) InfoLevel ''info'' = (InfoLevel, None) \<and>
   New stockEngine \<lparr>LogLevel = ''info'', Development = False, Encoding = ''xml'', OutputPaths = []\<rparr> =
     (None, Some (EngineError ''no encoder registered''))"
  by code_simp

text \<open>
  C2, as the code has it. The flag chooses the preset the encoder configuration starts
  from: the production preset when it is false, the development preset when it is true.
  Whatever the flag is, the time encoder is then set to ISO 8601 and the level encoder to
  the capital, colorized one.
\<close>

theorem New_encoderConfig:
  assumes "fst (New eng cfg) = Some l"
  shows "z_EncoderConfig (SugaredLogger l) =
           (if Development cfg then NewDevelopmentEncoderConfig else NewProductionEncoderConfig)
             \<lparr>EncodeTime := ISO8601TimeEncoder, EncodeLevel := CapitalColorLevelEncoder\<rparr>"
proof -
  from New_SomeD [OF assms] obtain lv where
    "Build eng (zapConfig (defaultEncoding cfg) lv (encoderConfigOf (defaultEncoding cfg))) =
       Inr (SugaredLogger l)"
    by blast
  from Build_Inr [OF this] have "z_EncoderConfig (SugaredLogger l) = encoderConfigOf cfg"
    by (simp add: zapConfig_def encoderConfigOf_defaultEncoding)
  then show ?thesis
    by (simp add: encoderConfigOf_def)
qed

theorem New_encoderConfig_witness:
  "z_EncoderConfig (SugaredLogger (the (fst (New stockEngine exampleConfig)))) =
     NewProductionEncoderConfig
       \<lparr>EncodeTime := ISO8601TimeEncoder, EncodeLevel := CapitalColorLevelEncoder\<rparr>"
  using New_encoderConfig [OF example_built] by (simp add: exampleConfig_def)

text \<open>
  C2 as it is written fails: with the flag false the logger's level encoder is the
  colorized one, not the production preset's lower-case encoder. Colorized level names do
  not depend on the flag.
\<close>

theorem New_production_level_encoder:
  "Development exampleConfig = False \<and>
   fst (New stockEngine exampleConfig) \<noteq> None \<and>
   EncodeLevel (z_EncoderConfig (SugaredLogger (the (fst (New stockEngine exampleConfig))))) =
     CapitalColorLevelEncoder \<and>
   EncodeLevel NewProductionEncoderConfig = LowercaseLevelEncoder"
  by code_simp

text \<open>
  C3. Whatever the configuration, a logger that \<open>New\<close> built writes to the configured
  output paths followed by \<open>stderr\<close>, and its error output is \<open>stderr\<close> alone.
\<close>

theorem New_sinks:
  assumes "fst (New eng cfg) = Some l"
  shows "z_OutputPaths (SugaredLogger l) = OutputPaths cfg @ [''stderr''] \<and>
         z_ErrorOutputPaths (SugaredLogger l) = [''stderr'']"
proof -
  from New_SomeD [OF assms] obtain lv where
    "Build eng (zapConfig (defaultEncoding cfg) lv (encoderConfigOf (defaultEncoding cfg))) =
       Inr (SugaredLogger l)"
    by blast
  from Build_Inr [OF this] show ?thesis
    by (simp add: zapConfig_def OutputPaths_defaultEncoding)
qed

theorem New_sinks_witness:
  "z_OutputPaths (SugaredLogger (the (fst (New stockEngine exampleConfig)))) =
     [''app.log'', ''stderr''] \<and>
   z_ErrorOutputPaths (SugaredLogger (the (fst (New stockEngine exampleConfig)))) = [''stderr'']"
  using New_sinks [OF example_built] by (simp add: exampleConfig_def)

lemma NewProduction_builds:
  "NewProduction eng =
     Inr \<lparr>z_Level = InfoLevel, z_Development = False, z_Sampling = Some (100, 100),
          z_Encoding = ''json'', z_EncoderConfig = NewProductionEncoderConfig,
          z_OutputPaths = [''stderr''], z_ErrorOutputPaths = [''stderr''],
          z_Name = [], z_Fields = []\<rparr>"
  by (simp add: NewProduction_def Build_def NewProductionConfig_def needsNothing_def standardSink_def)

text \<open>
  C8. \<open>NewDefault\<close> returns a logger on every call. \<open>zap.NewProduction\<close> is \<open>Build\<close> on the
  production configuration, which asks for the \<open>json\<close> encoder and for \<open>stderr\<close> only, so
  whatever the surroundings it is not rejected: there is no error to drop, the logger
  \<open>NewDefault\<close> holds is never nil, and the call of \<open>Sugar\<close> does not panic. The logger
  returned is the production logger: level info, JSON, sampling, written to \<open>stderr\<close>.
\<close>

theorem NewDefault_returns:
  "NewDefault eng =
     Inr (Logger \<lparr>z_Level = InfoLevel, z_Development = False, z_Sampling = Some (100, 100),
                  z_Encoding = ''json'', z_EncoderConfig = NewProductionEncoderConfig,
                  z_OutputPaths = [''stderr''], z_ErrorOutputPaths = [''stderr''],
                  z_Name = [], z_Fields = []\<rparr>) \<and>
   NewDefault eng \<noteq> Inl NilDereference \<and>
   needsNothing NewProductionConfig"
  by (simp add: NewDefault_cases NewProduction_builds needsNothing_def NewProductionConfig_def
      standardSink_def)

theorem NewDefault_returns_witness:
  "NewDefault stockEngine =
     Inr (Logger \<lparr>z_Level = InfoLevel, z_Development = False, z_Sampling = Some (100, 100),
                  z_Encoding = ''json'', z_EncoderConfig = NewProductionEncoderConfig,
                  z_OutputPaths = [''stderr''], z_ErrorOutputPaths = [''stderr''],
                  z_Name = [], z_Fields = []\<rparr>)"
  using NewDefault_returns [of stockEngine] by blast

text \<open>
  C9. When the level text is empty the level parser returns \<open>InfoLevel\<close> and no error, so
  \<open>New\<close> goes on to \<open>Build\<close>: its result is the engine's, it succeeds whenever the engine
  accepts the configuration, and every logger it returns has level \<open>InfoLevel\<close>.
\<close>

theorem New_empty_level:
  assumes "LogLevel cfg = []"
  shows "UnmarshalText (ToLower eng) InfoLevel (LogLevel cfg) = (InfoLevel, None) \<and>
         New eng cfg =
           (case Build eng (zapConfig (defaultEncoding cfg) InfoLevel (encoderConfigOf cfg)) of
              Inl e \<Rightarrow> (None, Some e)
            | Inr z \<Rightarrow> (Some (Logger z), None)) \<and>
         (rejects eng (zapConfig (defaultEncoding cfg) InfoLevel (encoderConfigOf cfg)) = None \<longrightarrow>
            (\<exists>l. New eng cfg = (Some l, None) \<and> z_Level (SugaredLogger l) = InfoLevel)) \<and>
         (\<forall>l. fst (New eng cfg) = Some l \<longrightarrow> z_Level (SugaredLogger l) = InfoLevel)"
proof -
  have u: "UnmarshalText (ToLower eng) InfoLevel (LogLevel cfg) = (InfoLevel, None)"
    using assms by (simp add: UnmarshalText_empty)
  have n: "New eng cfg =
           (case Build eng (zapConfig (defaultEncoding cfg) InfoLevel (encoderConfigOf cfg)) of
              Inl e \<Rightarrow> (None, Some e)
            | Inr z \<Rightarrow> (Some (Logger z), None))"
    by (simp add: New_cases u encoderConfigOf_defaultEncoding)
  have a: "rejects eng (zapConfig (defaultEncoding cfg) InfoLevel (encoderConfigOf cfg)) = None \<longrightarrow>
            (\<exists>l. New eng cfg = (Some l, None) \<and> z_Level (SugaredLogger l) = InfoLevel)"
    by (simp add: n Build_def zapConfig_def)
  have b: "\<forall>l. fst (New eng cfg) = Some l \<longrightarrow> z_Level (SugaredLogger l) = InfoLevel"
    by (auto simp: n Build_def zapConfig_def split: option.splits)
  from u n a b show ?thesis by blast
qed

theorem New_empty_level_witness:
  "New stockEngine (exampleConfig\<lparr>LogLevel := []\<rparr>) =
     (Some (the (fst (New stockEngine (exampleConfig\<lparr>LogLevel := []\<rparr>)))), None) \<and>
   z_Level (SugaredLogger (the (fst (New stockEngine (exampleConfig\<lparr>LogLevel := []\<rparr>))))) =
     InfoLevel"
proof -
  have h: "LogLevel (exampleConfig\<lparr>LogLevel := []\<rparr>) = []"
    by simp
  have r: "rejects stockEngine
             (zapConfig (defaultEncoding (exampleConfig\<lparr>LogLevel := []\<rparr>)) InfoLevel
               (encoderConfigOf (exampleConfig\<lparr>LogLevel := []\<rparr>))) = None"
    by code_simp
  from New_empty_level [OF h, of stockEngine] r
  obtain l where "New stockEngine (exampleConfig\<lparr>LogLevel := []\<rparr>) = (Some l, None)"
    and "z_Level (SugaredLogger l) = InfoLevel"
    by blast
  then show ?thesis by simp
qed

section \<open>The facade: standing fields and the request id\<close>

lemma e_Fields_recordOf: "e_Fields (recordOf l lvl msg kvs) = z_Fields (SugaredLogger l) @ kvs"
  by (simp add: recordOf_def)

lemma z_Fields_With: "z_Fields (SugaredLogger (With l kvs)) = z_Fields (SugaredLogger l) @ kvs"
  by (simp add: With_def)

lemma deref_SomeD: "deref h p = Some l \<Longrightarrow> p < length h"
  by (simp add: deref_def split: if_splits)

lemma deref_append_old: "p < length h \<Longrightarrow> deref (h @ [l]) p = deref h p"
  by (simp add: deref_def nth_append)

lemma deref_append_new: "deref (h @ [l]) (length h) = Some l"
  by (simp add: deref_def)

lemma WithRef_Some:
  assumes "deref h p = Some l"
  shows "WithRef h p kvs = Inr (length h, h @ [With l kvs])"
  using assms by (simp add: WithRef_def alloc_def)

text \<open>
  C6, as the code has it. Let \<open>p\<close> point to the logger \<open>l\<close>. The two calls
  \<open>With("k","v").With("k2","v2")\<close> allocate two new loggers and return the address \<open>p2\<close> of
  the second, which is \<open>l\<close> with the two fields added after its standing fields and
  nothing else changed: every record logged through \<open>p2\<close> has \<open>k=v\<close> and \<open>k2=v2\<close>. No cell
  that was allocated before is written: \<open>p\<close> still points to \<open>l\<close>, and a record logged
  through \<open>p\<close> after the calls is the record the same call gave before them, with \<open>l\<close>'s
  standing fields followed by the fields of the call. So it has \<open>k=v\<close> or \<open>k2=v2\<close> only
  when \<open>l\<close> carried the field already or the call passes it.
\<close>

theorem WithRef_WithRef:
  assumes "deref h p = Some l"
  shows "\<exists>p1 h1 p2 h2.
     WithRef h p [(k, v)] = Inr (p1, h1) \<and>
     WithRef h1 p1 [(k2, v2)] = Inr (p2, h2) \<and>
     deref h2 p2 =
       Some (Logger ((SugaredLogger l)\<lparr>z_Fields := z_Fields (SugaredLogger l) @ [(k, v), (k2, v2)]\<rparr>)) \<and>
     recordAt h2 p2 lvl msg kvs =
       Inr \<lparr>e_Level = lvl, e_Message = msg, e_LoggerName = z_Name (SugaredLogger l),
            e_Fields = z_Fields (SugaredLogger l) @ [(k, v), (k2, v2)] @ kvs\<rparr> \<and>
     p1 \<noteq> p \<and> p2 \<noteq> p \<and>
     deref h1 p = Some l \<and> deref h2 p = Some l \<and>
     (\<forall>q. q < length h \<longrightarrow> deref h2 q = deref h q) \<and>
     recordAt h2 p lvl msg kvs = recordAt h p lvl msg kvs \<and>
     recordAt h2 p lvl msg kvs =
       Inr \<lparr>e_Level = lvl, e_Message = msg, e_LoggerName = z_Name (SugaredLogger l),
            e_Fields = z_Fields (SugaredLogger l) @ kvs\<rparr> \<and>
     (f \<notin> set (z_Fields (SugaredLogger l)) \<and> f \<notin> set kvs \<longrightarrow>
        (\<exists>r. recordAt h2 p lvl msg kvs = Inr r \<and> f \<notin> set (e_Fields r)))"
proof -
  let ?l1 = "With l [(k, v)]"
  let ?h1 = "h @ [?l1]"
  let ?l2 = "With ?l1 [(k2, v2)]"
  let ?h2 = "?h1 @ [?l2]"
  from assms have lt: "p < length h"
    by (rule deref_SomeD)
  have w1: "WithRef h p [(k, v)] = Inr (length h, ?h1)"
    using assms by (rule WithRef_Some)
  have d1: "deref ?h1 (length h) = Some ?l1"
    by (rule deref_append_new)
  have w2: "WithRef ?h1 (length h) [(k2, v2)] = Inr (length ?h1, ?h2)"
    using d1 by (rule WithRef_Some)
  have d2: "deref ?h2 (length ?h1) = Some ?l2"
    by (rule deref_append_new)
  have l2: "?l2 = Logger ((SugaredLogger l)\<lparr>z_Fields := z_Fields (SugaredLogger l) @ [(k, v), (k2, v2)]\<rparr>)"
    by (simp add: With_def)
  have old1: "deref ?h1 p = Some l"
    using assms lt by (simp only: deref_append_old)
  have lt1: "p < length ?h1"
    using lt by simp
  have old2: "deref ?h2 p = Some l"
    using old1 deref_append_old [OF lt1, of ?l2] by (simp only:)
  have others: "\<forall>q. q < length h \<longrightarrow> deref ?h2 q = deref h q"
  proof (intro allI impI)
    fix q assume q: "q < length h"
    then have q1: "q < length ?h1" by simp
    from deref_append_old [OF q1, of ?l2] deref_append_old [OF q, of ?l1]
    show "deref ?h2 q = deref h q" by (simp only:)
  qed
  have r2: "recordAt ?h2 (length ?h1) lvl msg kvs =
       Inr \<lparr>e_Level = lvl, e_Message = msg, e_LoggerName = z_Name (SugaredLogger l),
            e_Fields = z_Fields (SugaredLogger l) @ [(k, v), (k2, v2)] @ kvs\<rparr>"
    unfolding recordAt_def d2 by (simp add: recordOf_def With_def)
  have r0: "recordAt ?h2 p lvl msg kvs =
       Inr \<lparr>e_Level = lvl, e_Message = msg, e_LoggerName = z_Name (SugaredLogger l),
            e_Fields = z_Fields (SugaredLogger l) @ kvs\<rparr>"
    unfolding recordAt_def old2 by (simp add: recordOf_def)
  have same: "recordAt ?h2 p lvl msg kvs = recordAt h p lvl msg kvs"
    unfolding recordAt_def old2 assms by simp
  have neither: "f \<notin> set (z_Fields (SugaredLogger l)) \<and> f \<notin> set kvs \<longrightarrow>
        (\<exists>r. recordAt ?h2 p lvl msg kvs = Inr r \<and> f \<notin> set (e_Fields r))"
    unfolding r0 by simp
  have ne1: "length h \<noteq> p" and ne2: "length ?h1 \<noteq> p"
    using lt by simp_all
  have d2': "deref ?h2 (length ?h1) =
      Some (Logger ((SugaredLogger l)\<lparr>z_Fields := z_Fields (SugaredLogger l) @ [(k, v), (k2, v2)]\<rparr>))"
    using d2 l2 by (simp only:)
  have all: "WithRef h p [(k, v)] = Inr (length h, ?h1) \<and>
     WithRef ?h1 (length h) [(k2, v2)] = Inr (length ?h1, ?h2) \<and>
     deref ?h2 (length ?h1) =
       Some (Logger ((SugaredLogger l)\<lparr>z_Fields := z_Fields (SugaredLogger l) @ [(k, v), (k2, v2)]\<rparr>)) \<and>
     recordAt ?h2 (length ?h1) lvl msg kvs =
       Inr \<lparr>e_Level = lvl, e_Message = msg, e_LoggerName = z_Name (SugaredLogger l),
            e_Fields = z_Fields (SugaredLogger l) @ [(k, v), (k2, v2)] @ kvs\<rparr> \<and>
     length h \<noteq> p \<and> length ?h1 \<noteq> p \<and>
     deref ?h1 p = Some l \<and> deref ?h2 p = Some l \<and>
     (\<forall>q. q < length h \<longrightarrow> deref ?h2 q = deref h q) \<and>
     recordAt ?h2 p lvl msg kvs = recordAt h p lvl msg kvs \<and>
     recordAt ?h2 p lvl msg kvs =
       Inr \<lparr>e_Level = lvl, e_Message = msg, e_LoggerName = z_Name (SugaredLogger l),
            e_Fields = z_Fields (SugaredLogger l) @ kvs\<rparr> \<and>
     (f \<notin> set (z_Fields (SugaredLogger l)) \<and> f \<notin> set kvs \<longrightarrow>
        (\<exists>r. recordAt ?h2 p lvl msg kvs = Inr r \<and> f \<notin> set (e_Fields r)))"
    by (intro conjI) (fact w1 w2 d2' r2 ne1 ne2 old1 old2 others same r0 neither)+
  show ?thesis
    by (rule exI [of _ "length h"], rule exI [of _ ?h1], rule exI [of _ "length ?h1"],
        rule exI [of _ ?h2]) (rule all)
qed

theorem WithRef_WithRef_witness:
  "WithRef [exampleLogger] 0 [(''k'', VString ''v'')] =
     Inr (1, [exampleLogger, With exampleLogger [(''k'', VString ''v'')]]) \<and>
   WithRef [exampleLogger, With exampleLogger [(''k'', VString ''v'')]] 1 [(''k2'', VString ''v2'')] =
     Inr (2, [exampleLogger, With exampleLogger [(''k'', VString ''v'')],
              With (With exampleLogger [(''k'', VString ''v'')]) [(''k2'', VString ''v2'')]]) \<and>
   recordAt [exampleLogger, With exampleLogger [(''k'', VString ''v'')],
             With (With exampleLogger [(''k'', VString ''v'')]) [(''k2'', VString ''v2'')]]
      2 InfoLevel ''m'' [] =
     Inr \<lparr>e_Level = InfoLevel, e_Message = ''m'', e_LoggerName = [],
          e_Fields = [(''k'', VString ''v''), (''k2'', VString ''v2'')]\<rparr> \<and>
   recordAt [exampleLogger, With exampleLogger [(''k'', VString ''v'')],
             With (With exampleLogger [(''k'', VString ''v'')]) [(''k2'', VString ''v2'')]]
      0 InfoLevel ''m'' [] =
     Inr \<lparr>e_Level = InfoLevel, e_Message = ''m'', e_LoggerName = [], e_Fields = []\<rparr>"
proof -
  let ?h = "[exampleLogger]"
  let ?h1 = "[exampleLogger, With exampleLogger [(''k'', VString ''v'')]]"
  let ?h2 = "[exampleLogger, With exampleLogger [(''k'', VString ''v'')],
              With (With exampleLogger [(''k'', VString ''v'')]) [(''k2'', VString ''v2'')]]"
  have d: "deref ?h 0 = Some exampleLogger"
    by (simp add: deref_def)
  have n: "z_Name (SugaredLogger exampleLogger) = [] \<and> z_Fields (SugaredLogger exampleLogger) = []"
    by (simp add: exampleLogger_def)
  have w1: "WithRef ?h 0 [(''k'', VString ''v'')] = Inr (1, ?h1)"
    by (simp add: WithRef_def deref_def alloc_def)
  have w2: "WithRef ?h1 1 [(''k2'', VString ''v2'')] = Inr (2, ?h2)"
    by (simp add: WithRef_def deref_def alloc_def)
  from WithRef_WithRef [OF d, of "''k''" "VString ''v''" "''k2''" "VString ''v2''" InfoLevel "''m''" "[]"]
  obtain p1 h1 p2 h2 where
    a: "WithRef ?h 0 [(''k'', VString ''v'')] = Inr (p1, h1)" and
    b: "WithRef h1 p1 [(''k2'', VString ''v2'')] = Inr (p2, h2)" and
    c: "recordAt h2 p2 InfoLevel ''m'' [] =
       Inr \<lparr>e_Level = InfoLevel, e_Message = ''m'', e_LoggerName = z_Name (SugaredLogger exampleLogger),
            e_Fields = z_Fields (SugaredLogger exampleLogger) @ [(''k'', VString ''v''), (''k2'', VString ''v2'')] @ []\<rparr>" and
    e: "recordAt h2 0 InfoLevel ''m'' [] =
       Inr \<lparr>e_Level = InfoLevel, e_Message = ''m'', e_LoggerName = z_Name (SugaredLogger exampleLogger),
            e_Fields = z_Fields (SugaredLogger exampleLogger) @ []\<rparr>"
    by blast
  from a w1 have p1: "p1 = 1" and h1: "h1 = ?h1"
    by simp_all
  from b w2 p1 h1 have p2: "p2 = 2" and h2: "h2 = ?h2"
    by simp_all
  from c e n p2 h2 w1 w2 show ?thesis
    by simp
qed

text \<open>
  C6 as it is written fails for a receiver that carries \<open>k=v\<close> already. In the example
  heap the logger at address 1 is the result of an earlier \<open>With("k","v")\<close>; after
  \<open>With("k","v").With("k2","v2")\<close> on it, a record logged through address 1 still has
  \<open>k=v\<close>, where the claim says it has neither field.
\<close>

theorem WithRef_receiver_already_has_field:
  "deref exampleHeap 1 = Some (With exampleLogger [(''k'', VString ''v'')]) \<and>
   WithRef exampleHeap 1 [(''k'', VString ''v'')] =
     Inr (2, exampleHeap @ [With (With exampleLogger [(''k'', VString ''v'')]) [(''k'', VString ''v'')]]) \<and>
   WithRef (exampleHeap @ [With (With exampleLogger [(''k'', VString ''v'')]) [(''k'', VString ''v'')]])
       2 [(''k2'', VString ''v2'')] =
     Inr (3, exampleHeap @
             [With (With exampleLogger [(''k'', VString ''v'')]) [(''k'', VString ''v'')],
              With (With (With exampleLogger [(''k'', VString ''v'')]) [(''k'', VString ''v'')])
                [(''k2'', VString ''v2'')]]) \<and>
   recordAt (exampleHeap @
             [With (With exampleLogger [(''k'', VString ''v'')]) [(''k'', VString ''v'')],
              With (With (With exampleLogger [(''k'', VString ''v'')]) [(''k'', VString ''v'')])
                [(''k2'', VString ''v2'')]])
      1 InfoLevel ''m'' [] =
     Inr \<lparr>e_Level = InfoLevel, e_Message = ''m'', e_LoggerName = [],
          e_Fields = [(''k'', VString ''v'')]\<rparr>"
  by (simp add: exampleHeap_def WithRef_def deref_def alloc_def recordAt_def recordOf_def With_def
      exampleLogger_def)

text \<open>
  C7, as the code has it. For a context that holds a string under \<open>request_id\<close>,
  \<open>WithContext\<close> returns the receiver with that id attached as a standing field, and
  every record of the result has the field. For a nil context, and for a context that
  holds nothing under the key, it returns the receiver. The function is total: on each
  of these paths it returns a logger.
\<close>

theorem WithContext_request_id:
  "(ctx = Some c \<and> c ''request_id'' = Some (VString reqID) \<longrightarrow>
      WithContext l ctx = With l [(''request_id'', VString reqID)] \<and>
      (''request_id'', VString reqID) \<in> set (e_Fields (recordOf (WithContext l ctx) lvl msg kvs))) \<and>
   (ctx = None \<or> (ctx = Some c \<and> c ''request_id'' = None) \<longrightarrow> WithContext l ctx = l)"
  by (auto simp: WithContext_def e_Fields_recordOf z_Fields_With)

theorem WithContext_request_id_witness:
  "WithContext exampleLogger (Some (WithValue Background ''request_id'' (VString ''abc''))) =
     With exampleLogger [(''request_id'', VString ''abc'')] \<and>
   (''request_id'', VString ''abc'') \<in> set (e_Fields (recordOf
      (WithContext exampleLogger (Some (WithValue Background ''request_id'' (VString ''abc''))))
      InfoLevel ''m'' [])) \<and>
   WithContext exampleLogger None = exampleLogger \<and>
   WithContext exampleLogger (Some Background) = exampleLogger"
proof -
  let ?c = "WithValue Background ''request_id'' (VString ''abc'')"
  have p: "Some ?c = Some ?c \<and> ?c ''request_id'' = Some (VString ''abc'')"
    by (simp add: WithValue_def)
  from p WithContext_request_id [of "Some ?c" ?c "''abc''" exampleLogger InfoLevel "''m''" "[]"]
  have ab: "WithContext exampleLogger (Some ?c) = With exampleLogger [(''request_id'', VString ''abc'')] \<and>
     (''request_id'', VString ''abc'') \<in>
       set (e_Fields (recordOf (WithContext exampleLogger (Some ?c)) InfoLevel ''m'' []))"
    by blast
  from WithContext_request_id [of None Background _ exampleLogger]
  have c: "WithContext exampleLogger None = exampleLogger"
    by blast
  have q: "Some Background = Some Background \<and> Background ''request_id'' = None"
    by (simp add: Background_def)
  from q WithContext_request_id [of "Some Background" Background _ exampleLogger]
  have d: "WithContext exampleLogger (Some Background) = exampleLogger"
    by blast
  from ab c d show ?thesis by blast
qed

text \<open>
  C7 as it is written fails for a context that carries a \<open>request_id\<close> which is not a
  string: the receiver comes back, and its records have no such field.
\<close>

theorem WithContext_request_id_not_string:
  "WithContext exampleLogger (Some (WithValue Background ''request_id'' (VInt 42))) = exampleLogger \<and>
   e_Fields (recordOf (WithContext exampleLogger (Some (WithValue Background ''request_id'' (VInt 42))))
      InfoLevel ''m'' []) = []"
  by (simp add: WithContext_def WithValue_def recordOf_def exampleLogger_def)

text \<open>
  C10. When the context is not nil and the value under \<open>request_id\<close> is there but is
  not a string, the comma-ok assertion fails quietly and \<open>WithContext\<close> returns the
  receiver.
\<close>

theorem WithContext_not_string:
  assumes "ctx = Some c" and "c ''request_id'' = Some v" and "\<forall>s. v \<noteq> VString s"
  shows "WithContext l ctx = l"
  using assms by (cases v) (simp_all add: WithContext_def)

theorem WithContext_not_string_witness:
  "WithContext exampleLogger (Some (WithValue Background ''request_id'' (VBool True))) = exampleLogger"
proof -
  have a: "(WithValue Background ''request_id'' (VBool True)) ''request_id'' = Some (VBool True)"
    by (simp add: WithValue_def)
  have b: "\<forall>s. VBool True \<noteq> VString s"
    by simp
  from WithContext_not_string [of "Some (WithValue Background ''request_id'' (VBool True))"
      "WithValue Background ''request_id'' (VBool True)" "VBool True" exampleLogger, OF refl a b]
  show ?thesis .
qed

section \<open>The interceptors\<close>











end
